theory Spec2Isabelle
  imports Main "HOL-Library.Word"
begin

unbundle bit_operations_syntax

section \<open>Errors and JSON values\<close>

text \<open>
  A Go \<open>error\<close> is identified with its message, the string that \<open>err.Error()\<close> returns:
  the handlers do nothing with an error but test it against \<open>nil\<close> and print that string.
  A result \<open>(v, err)\<close> of a library call is a sum, \<open>Inl\<close> holding the error.
\<close>

type_synonym error = string

type_synonym byte = "8 word"

text \<open>The values that \<open>c.JSON\<close> writes and that \<open>json.Decoder\<close> reads.\<close>

datatype json =
    JNull
  | JBool bool
  | JNumber int
  | JString string
  | JArray "json list"
  | JObject "(string \<times> json) list"

text \<open>\<open>c.JSON(code, obj)\<close>: the status code and the JSON rendering of \<open>obj\<close>.\<close>

record response =
  status :: nat
  body :: json

definition JSON :: "nat \<Rightarrow> json \<Rightarrow> response" where
  "JSON code obj = \<lparr>status = code, body = obj\<rparr>"

text \<open>\<open>gin.H{"error": msg}\<close> and \<open>gin.H{"message": msg}\<close>.\<close>

definition H_error :: "string \<Rightarrow> json" where
  "H_error msg = JObject [(''error'', JString msg)]"

definition H_message :: "string \<Rightarrow> json" where
  "H_message msg = JObject [(''message'', JString msg)]"

text \<open>\<open>gin.H{"id": i, "exists": b}\<close>; a map is written with its keys sorted.\<close>

definition H_exists :: "string \<Rightarrow> bool \<Rightarrow> json" where
  "H_exists i b = JObject [(''exists'', JBool b), (''id'', JString i)]"

section \<open>Record identifiers\<close>

text \<open>
  \<open>primitive.ObjectID\<close> is \<open>[12]byte\<close>. The driver's \<open>ObjectIDFromHex\<close> and \<open>Hex\<close> and
  the \<open>encoding/hex\<close> functions under them are library code; they are written out here, the
  spec calling the identifier "a 24-character hex value".
\<close>

typedef ObjectID = "{bs :: byte list. length bs = 12}"
  by (rule exI [of _ "replicate 12 0"]) simp

definition NilObjectID :: ObjectID where
  "NilObjectID = Abs_ObjectID (replicate 12 0)"

definition hextable :: string where
  "hextable = ''0123456789abcdef''"

definition hex_EncodeToString :: "byte list \<Rightarrow> string" where
  "hex_EncodeToString src =
     concat (map (\<lambda>v. [hextable ! unat (drop_bit 4 v), hextable ! unat (v AND 15)]) src)"

definition fromHexChar :: "char \<Rightarrow> byte option" where
  "fromHexChar c =
     (let n = (of_char c :: nat) in
      if 48 \<le> n \<and> n \<le> 57 then Some (of_nat (n - 48))
      else if 97 \<le> n \<and> n \<le> 102 then Some (of_nat (n - 97 + 10))
      else if 65 \<le> n \<and> n \<le> 70 then Some (of_nat (n - 65 + 10))
      else None)"

text \<open>
  \<open>hex.InvalidByteError(c).Error()\<close> is \<open>fmt.Sprintf("encoding/hex: invalid byte: %#U", rune(c))\<close>:
  the code point as \<open>U+00XX\<close>, followed by the quoted character when it is printable.
\<close>

definition fmt_sharp_U :: "char \<Rightarrow> string" where
  "fmt_sharp_U c =
     (let n = (of_char c :: nat);
          code = ''U+00'' @ [''0123456789ABCDEF'' ! (n div 16), ''0123456789ABCDEF'' ! (n mod 16)]
      in if 32 \<le> n \<and> n \<le> 126 then code @ '' '' @ [CHR 0x27, c, CHR 0x27]
         else if 161 \<le> n \<and> n \<noteq> 173
         then code @ '' '' @ [CHR 0x27, char_of (192 + n div 64), char_of (128 + n mod 64), CHR 0x27]
         else code)"

definition InvalidByteError :: "char \<Rightarrow> error" where
  "InvalidByteError c = ''encoding/hex: invalid byte: '' @ fmt_sharp_U c"

definition ErrLength :: error where
  "ErrLength = ''encoding/hex: odd length hex string''"

definition ErrInvalidHex :: error where
  "ErrInvalidHex = ''the provided hex string is not a valid ObjectID''"

text \<open>\<open>hex.Decode\<close>: two characters a byte, the first invalid character reported.\<close>

fun hex_Decode :: "string \<Rightarrow> error + byte list" where
  "hex_Decode (p # q # src) =
     (case fromHexChar p of
        None \<Rightarrow> Inl (InvalidByteError p)
      | Some a \<Rightarrow>
          (case fromHexChar q of
             None \<Rightarrow> Inl (InvalidByteError q)
           | Some b \<Rightarrow>
               (case hex_Decode src of
                  Inl err \<Rightarrow> Inl err
                | Inr dst \<Rightarrow> Inr ((push_bit 4 a OR b) # dst))))"
| "hex_Decode [p] =
     (case fromHexChar p of None \<Rightarrow> Inl (InvalidByteError p) | Some a \<Rightarrow> Inl ErrLength)"
| "hex_Decode [] = Inr []"

text \<open>
  \<open>ObjectIDFromHex\<close>: the length is checked first, then the string is decoded and copied
  into the twelve bytes (\<open>var oid [12]byte; copy(oid[:], b)\<close>).
\<close>

definition ObjectIDFromHex :: "string \<Rightarrow> error + ObjectID" where
  "ObjectIDFromHex s =
     (if length s \<noteq> 24 then Inl ErrInvalidHex
      else case hex_Decode s of
             Inl err \<Rightarrow> Inl err
           | Inr b \<Rightarrow> Inr (Abs_ObjectID (take 12 (b @ replicate 12 0))))"

definition Hex :: "ObjectID \<Rightarrow> string" where
  "Hex oid = hex_EncodeToString (Rep_ObjectID oid)"

text \<open>The characters of a hexadecimal string, in the spec's sense.\<close>

definition isHexDigit :: "char \<Rightarrow> bool" where
  "isHexDigit c \<longleftrightarrow> c \<in> set ''0123456789abcdefABCDEF''"

section \<open>The document store\<close>

text \<open>
  A \<open>mongo.Collection\<close> is the list of its documents, in insertion order, together with the
  log of the operations the driver was asked to run on it: an operation that is attempted
  is logged whether it succeeds or not, so a handler that leaves the whole record as it was
  has not touched the store. Each operation takes its own \<open>fault\<close>: the error with which
  the driver fails it (no connection, the five-second deadline of the handler's context
  passed), or \<open>None\<close> when the store answers.
\<close>

datatype store_op = OpFind | OpInsertOne | OpDeleteOne | OpCountDocuments

record 'a collection =
  docs :: "'a list"
  ops :: "store_op list"

definition logged :: "store_op \<Rightarrow> 'a collection \<Rightarrow> 'a collection" where
  "logged opr coll = coll\<lparr>ops := ops coll @ [opr]\<rparr>"

definition ErrDuplicateKey :: error where
  "ErrDuplicateKey = ''E11000 duplicate key error''"

text \<open>
  \<open>InsertOne\<close>: a document whose \<open>_id\<close> is left out (the structs tag it \<open>omitempty\<close>, and
  the zero identifier counts as empty) gets the identifier \<open>generated\<close> by the driver; the
  store refuses a second document with the same \<open>_id\<close>. The result is the \<open>InsertedID\<close>.
\<close>

definition InsertOne ::
  "error option \<Rightarrow> ObjectID \<Rightarrow> ('a \<Rightarrow> ObjectID) \<Rightarrow> (ObjectID \<Rightarrow> 'a \<Rightarrow> 'a) \<Rightarrow> 'a
     \<Rightarrow> 'a collection \<Rightarrow> (error + ObjectID) \<times> 'a collection" where
  "InsertOne fault generated get_id set_id document coll =
     (let coll' = logged OpInsertOne coll;
          stored = (if get_id document = NilObjectID then set_id generated document
                    else document)
      in case fault of
           Some err \<Rightarrow> (Inl err, coll')
         | None \<Rightarrow>
             if get_id stored \<in> set (map get_id (docs coll)) then (Inl ErrDuplicateKey, coll')
             else (Inr (get_id stored), coll'\<lparr>docs := docs coll @ [stored]\<rparr>))"

fun remove_first :: "('a \<Rightarrow> bool) \<Rightarrow> 'a list \<Rightarrow> 'a list" where
  "remove_first flt [] = []"
| "remove_first flt (d # ds) = (if flt d then ds else d # remove_first flt ds)"

text \<open>\<open>DeleteOne\<close>: the first matching document goes; the result is the \<open>DeletedCount\<close>.\<close>

definition DeleteOne ::
  "error option \<Rightarrow> ('a \<Rightarrow> bool) \<Rightarrow> 'a collection \<Rightarrow> (error + nat) \<times> 'a collection" where
  "DeleteOne fault flt coll =
     (let coll' = logged OpDeleteOne coll
      in case fault of
           Some err \<Rightarrow> (Inl err, coll')
         | None \<Rightarrow>
             if list_ex flt (docs coll)
             then (Inr 1, coll'\<lparr>docs := remove_first flt (docs coll)\<rparr>)
             else (Inr 0, coll'))"

definition CountDocuments ::
  "error option \<Rightarrow> ('a \<Rightarrow> bool) \<Rightarrow> 'a collection \<Rightarrow> (error + nat) \<times> 'a collection" where
  "CountDocuments fault flt coll =
     (let coll' = logged OpCountDocuments coll
      in case fault of
           Some err \<Rightarrow> (Inl err, coll')
         | None \<Rightarrow> (Inr (length (filter flt (docs coll))), coll'))"

text \<open>\<open>Find\<close> gives a cursor over the matching documents; \<open>cursor.All\<close> reads them out.\<close>

definition Find ::
  "error option \<Rightarrow> ('a \<Rightarrow> bool) \<Rightarrow> 'a collection \<Rightarrow> (error + 'a list) \<times> 'a collection" where
  "Find fault flt coll =
     (let coll' = logged OpFind coll
      in case fault of
           Some err \<Rightarrow> (Inl err, coll')
         | None \<Rightarrow> (Inr (filter flt (docs coll)), coll'))"

definition cursor_All :: "error option \<Rightarrow> 'a list \<Rightarrow> error + 'a list" where
  "cursor_All fault cursor = (case fault of Some err \<Rightarrow> Inl err | None \<Rightarrow> Inr cursor)"

section \<open>The User Service\<close>

record User =
  ID :: ObjectID
  Name :: string

text \<open>The JSON of a \<open>User\<close>: \<open>omitempty\<close> never drops an array, so \<open>id\<close> is always there.\<close>

definition User_json :: "User \<Rightarrow> json" where
  "User_json u = JObject [(''id'', JString (Hex (User.ID u))), (''name'', JString (Name u))]"

text \<open>
  \<open>createUser\<close>. \<open>bound\<close> is what \<open>c.ShouldBindJSON(&newUser)\<close> gives: the error, or the
  decoded struct; \<open>newID\<close> is the value of \<open>primitive.NewObjectID()\<close>.
\<close>

definition createUser ::
  "error + User \<Rightarrow> ObjectID \<Rightarrow> ObjectID \<Rightarrow> error option \<Rightarrow> User collection
     \<Rightarrow> response \<times> User collection" where
  "createUser bound newID generated fault userCollection =
     (case bound of
        Inl err \<Rightarrow> (JSON 400 (H_error err), userCollection)
      | Inr decoded \<Rightarrow>
          (let newUser = decoded\<lparr>User.ID := newID\<rparr>
           in case InsertOne fault generated User.ID (\<lambda>i u. u\<lparr>User.ID := i\<rparr>) newUser
                     userCollection of
                (Inl err, coll') \<Rightarrow> (JSON 500 (H_error err), coll')
              | (Inr inserted, coll') \<Rightarrow> (JSON 201 (User_json newUser), coll')))"

definition deleteUser ::
  "error option \<Rightarrow> string \<Rightarrow> User collection \<Rightarrow> response \<times> User collection" where
  "deleteUser fault idParam userCollection =
     (case ObjectIDFromHex idParam of
        Inl err \<Rightarrow> (JSON 400 (H_error err), userCollection)
      | Inr objID \<Rightarrow>
          (case DeleteOne fault (\<lambda>u. User.ID u = objID) userCollection of
             (Inl err, coll') \<Rightarrow> (JSON 500 (H_error err), coll')
           | (Inr DeletedCount, coll') \<Rightarrow>
               if DeletedCount = 0 then (JSON 404 (H_error ''user not found''), coll')
               else (JSON 200 (H_message ''deleted successfully''), coll')))"

text \<open>
  The handler \<open>checkUserExists\<close> of the User Service (the Post Service has a function of
  the same name, the client of this endpoint).
\<close>

definition userCheckUserExists ::
  "error option \<Rightarrow> string \<Rightarrow> User collection \<Rightarrow> response \<times> User collection" where
  "userCheckUserExists fault idParam userCollection =
     (case ObjectIDFromHex idParam of
        Inl err \<Rightarrow> (JSON 400 (H_error err), userCollection)
      | Inr objID \<Rightarrow>
          (case CountDocuments fault (\<lambda>u. User.ID u = objID) userCollection of
             (Inl err, coll') \<Rightarrow> (JSON 500 (H_error err), coll')
           | (Inr count, coll') \<Rightarrow>
               (JSON 200 (H_exists idParam (count > 0)), coll')))"

section \<open>The Post Service\<close>

record Post =
  ID :: ObjectID
  UserID :: string
  Title :: string
  Content :: string

definition Post_json :: "Post \<Rightarrow> json" where
  "Post_json p =
     JObject [(''id'', JString (Hex (Post.ID p))), (''user_id'', JString (UserID p)),
              (''title'', JString (Title p)), (''content'', JString (Content p))]"

text \<open>A \<open>[]Post\<close> that was never appended to is \<open>nil\<close>, which is written \<open>null\<close>.\<close>

definition posts_json :: "Post list \<Rightarrow> json" where
  "posts_json posts = (if posts = [] then JNull else JArray (map Post_json posts))"

subsection \<open>The Verification Client\<close>

text \<open>
  What \<open>http.Get\<close> hands back when the exchange succeeds: the status code, the body, and
  the time the exchange took. The body is either a stream on which \<open>json.Decoder\<close> fails
  with the given error (not JSON, empty, cut off) or one that starts with a JSON value.
\<close>

datatype wire = Malformed error | Document json

record http_response =
  StatusCode :: nat
  Body :: wire
  elapsed_ms :: nat

text \<open>
  The surroundings of the Post Service: the process environment and the network, which
  answers a \<open>GET\<close> of a URL with a transport error or with a response. \<open>http.Get\<close> is the
  default client, whose \<open>Timeout\<close> is zero: it sets no deadline, so a response is handed
  back however long it took.
\<close>

record env =
  getenv :: "string \<Rightarrow> string"
  http_Get :: "string \<Rightarrow> error + http_response"

text \<open>
  \<open>context.WithTimeout(context.Background(), 5*time.Second)\<close>: the deadline, in
  milliseconds, of the context that each handler makes and passes to its store operations.
  \<open>checkUserExists\<close> takes no context.
\<close>

definition deadline_ms :: nat where
  "deadline_ms = 5000"

text \<open>
  The anonymous struct \<open>result\<close> and the decoding of a JSON value into it by
  \<open>encoding/json\<close>: \<open>null\<close> leaves the struct as it is; an object sets the fields its keys
  name, a key matching a field name exactly or under case folding (which takes the long s
  and the Kelvin sign to \<open>s\<close> and \<open>k\<close>), other keys being skipped; a value of the wrong type
  is an error, as is any other top-level value.
\<close>

record result =
  ID :: string
  Exists :: bool

definition asciiLower :: "char \<Rightarrow> char" where
  "asciiLower c =
     (let n = (of_char c :: nat) in if 65 \<le> n \<and> n \<le> 90 then char_of (n + 32) else c)"

fun foldName :: "string \<Rightarrow> string" where
  "foldName (a # b # c # cs) =
     (if a = CHR 0xE2 \<and> b = CHR 0x84 \<and> c = CHR 0xAA then CHR ''k'' # foldName cs
      else if a = CHR 0xC5 \<and> b = CHR 0xBF then CHR ''s'' # foldName (c # cs)
      else asciiLower a # foldName (b # c # cs))"
| "foldName [a, b] =
     (if a = CHR 0xC5 \<and> b = CHR 0xBF then ''s'' else [asciiLower a, asciiLower b])"
| "foldName [a] = [asciiLower a]"
| "foldName [] = []"

definition ErrUnmarshalType :: error where
  "ErrUnmarshalType = ''json: cannot unmarshal value into Go struct''"

definition decodeField :: "string \<Rightarrow> json \<Rightarrow> result \<Rightarrow> error + result" where
  "decodeField key v r =
     (if foldName key = ''id'' then
        (case v of
           JString s \<Rightarrow> Inr (r\<lparr>result.ID := s\<rparr>)
         | JNull \<Rightarrow> Inr r
         | _ \<Rightarrow> Inl ErrUnmarshalType)
      else if foldName key = ''exists'' then
        (case v of
           JBool b \<Rightarrow> Inr (r\<lparr>Exists := b\<rparr>)
         | JNull \<Rightarrow> Inr r
         | _ \<Rightarrow> Inl ErrUnmarshalType)
      else Inr r)"

fun decodeObject :: "(string \<times> json) list \<Rightarrow> result \<Rightarrow> error + result" where
  "decodeObject [] r = Inr r"
| "decodeObject ((key, v) # members) r =
     (case decodeField key v r of
        Inl err \<Rightarrow> Inl err
      | Inr r' \<Rightarrow> decodeObject members r')"

definition Decode :: "wire \<Rightarrow> result \<Rightarrow> error + result" where
  "Decode stream r =
     (case stream of
        Malformed err \<Rightarrow> Inl err
      | Document JNull \<Rightarrow> Inr r
      | Document (JObject members) \<Rightarrow> decodeObject members r
      | Document _ \<Rightarrow> Inl ErrUnmarshalType)"

definition existsURL :: "env \<Rightarrow> string \<Rightarrow> string" where
  "existsURL e userID =
     (let userServiceURL =
            (if getenv e ''USER_SERVICE_URL'' = [] then ''http://localhost:8080''
             else getenv e ''USER_SERVICE_URL'')
      in userServiceURL @ ''/users/exists/'' @ userID)"

text \<open>
  \<open>checkUserExists\<close> of the Post Service. It returns the Go pair \<open>(bool, error)\<close>, the
  error \<open>None\<close> for \<open>nil\<close>: on an error the boolean is \<open>false\<close>, and it is for the caller
  to look at the error first.
\<close>

definition checkUserExists :: "env \<Rightarrow> string \<Rightarrow> bool \<times> error option" where
  "checkUserExists e userID =
     (case http_Get e (existsURL e userID) of
        Inl err \<Rightarrow> (False, Some err)
      | Inr resp \<Rightarrow>
          (case Decode (Body resp) \<lparr>result.ID = [], Exists = False\<rparr> of
             Inl err \<Rightarrow> (False, Some err)
           | Inr res \<Rightarrow> (Exists res, None)))"

subsection \<open>The handlers\<close>

definition getPostsByUserID ::
  "env \<Rightarrow> string \<Rightarrow> error option \<Rightarrow> error option \<Rightarrow> Post collection
     \<Rightarrow> response \<times> Post collection" where
  "getPostsByUserID e userID find_fault all_fault postCollection =
     (case checkUserExists e userID of
        (exists, Some err) \<Rightarrow>
          (JSON 502 (H_error ''cannot connect to user-service''), postCollection)
      | (exists, None) \<Rightarrow>
          if \<not> exists then (JSON 404 (H_error ''user does not exist''), postCollection)
          else
            (case Find find_fault (\<lambda>p. UserID p = userID) postCollection of
               (Inl err, coll') \<Rightarrow> (JSON 500 (H_error err), coll')
             | (Inr cursor, coll') \<Rightarrow>
                 (case cursor_All all_fault cursor of
                    Inl err \<Rightarrow> (JSON 500 (H_error ''cannot decode posts''), coll')
                  | Inr posts \<Rightarrow>
                      (JSON 200 (JObject [(''posts'', posts_json posts),
                                          (''user_id'', JString userID)]),
                       coll'))))"

text \<open>
  \<open>createPost\<close>. \<open>bound\<close> is what \<open>c.ShouldBindJSON(&newPost)\<close> gives; the identifier of
  the answer is \<open>result.InsertedID\<close>.
\<close>

definition createPost ::
  "env \<Rightarrow> error + Post \<Rightarrow> ObjectID \<Rightarrow> error option \<Rightarrow> Post collection
     \<Rightarrow> response \<times> Post collection" where
  "createPost e bound generated fault postCollection =
     (case bound of
        Inl err \<Rightarrow> (JSON 400 (H_error err), postCollection)
      | Inr newPost \<Rightarrow>
          (case checkUserExists e (UserID newPost) of
             (exists, Some err) \<Rightarrow>
               (JSON 502 (H_error ''cannot connect to user-service''), postCollection)
           | (exists, None) \<Rightarrow>
               if \<not> exists then (JSON 404 (H_error ''user does not exist''), postCollection)
               else
                 (case InsertOne fault generated Post.ID (\<lambda>i p. p\<lparr>Post.ID := i\<rparr>) newPost
                         postCollection of
                    (Inl err, coll') \<Rightarrow> (JSON 500 (H_error err), coll')
                  | (Inr InsertedID, coll') \<Rightarrow>
                      (JSON 201 (Post_json (newPost\<lparr>Post.ID := InsertedID\<rparr>)), coll'))))"

definition deletePost ::
  "error option \<Rightarrow> string \<Rightarrow> Post collection \<Rightarrow> response \<times> Post collection" where
  "deletePost fault postID postCollection =
     (case ObjectIDFromHex postID of
        Inl err \<Rightarrow> (JSON 400 (H_error err), postCollection)
      | Inr objID \<Rightarrow>
          (case DeleteOne fault (\<lambda>p. Post.ID p = objID) postCollection of
             (Inl err, coll') \<Rightarrow> (JSON 500 (H_error err), coll')
           | (Inr DeletedCount, coll') \<Rightarrow>
               if DeletedCount = 0 then (JSON 404 (H_error ''post not found''), coll')
               else (JSON 200 (H_message ''post deleted''), coll')))"

section \<open>The two services together\<close>

text \<open>
  The reply of a User Service handler as the Verification Client receives it after
  \<open>t\<close> milliseconds: \<open>c.JSON\<close> has written the status and the JSON document.
\<close>

definition deliver :: "nat \<Rightarrow> response \<Rightarrow> http_response" where
  "deliver t r = \<lparr>StatusCode = status r, Body = Document (body r), elapsed_ms = t\<rparr>"

text \<open>
  The exchange that the Verification Client opens for \<open>userID\<close> reaches the existence
  endpoint of a User Service whose collection is \<open>users\<close>, with \<open>userID\<close> as the path
  parameter, and brings the handler's reply back.
\<close>

definition answered_by :: "env \<Rightarrow> string \<Rightarrow> nat \<Rightarrow> error option \<Rightarrow> User collection \<Rightarrow> bool" where
  "answered_by e userID t fault users \<longleftrightarrow>
     http_Get e (existsURL e userID) = Inr (deliver t (fst (userCheckUserExists fault userID users)))"

text \<open>
  The same \<open>DELETE /posts/:postID\<close> sent again and again: one call for each entry of the
  list, which gives the fault the store meets at that call.
\<close>

fun deletePost_each ::
  "error option list \<Rightarrow> string \<Rightarrow> Post collection \<Rightarrow> response list \<times> Post collection" where
  "deletePost_each [] postID postCollection = ([], postCollection)"
| "deletePost_each (fault # faults) postID postCollection =
     (case deletePost fault postID postCollection of
        (r, coll') \<Rightarrow>
          (case deletePost_each faults postID coll' of (rs, coll'') \<Rightarrow> (r # rs, coll'')))"

section \<open>Example inputs\<close>

text \<open>Concrete surroundings, identifiers and documents at which the theorems are applied.\<close>

definition no_env :: "string \<Rightarrow> string" where
  "no_env name = []"

definition answering :: "nat \<Rightarrow> wire \<Rightarrow> nat \<Rightarrow> env" where
  "answering code stream t =
     \<lparr>getenv = no_env,
      http_Get = (\<lambda>url. Inr \<lparr>StatusCode = code, Body = stream, elapsed_ms = t\<rparr>)\<rparr>"

definition refusing :: env where
  "refusing = \<lparr>getenv = no_env, http_Get = (\<lambda>url. Inl ''connection refused'')\<rparr>"

definition oid1 :: ObjectID where
  "oid1 = Abs_ObjectID [0x50, 0x7f, 0x1f, 0x77, 0xbc, 0xf8, 0x6c, 0xd7, 0x99, 0x43, 0x90, 0x11]"

definition oid2 :: ObjectID where
  "oid2 = Abs_ObjectID [0x65, 0x4a, 0x1b, 0x2c, 0x3d, 0x4e, 0x5f, 0x60, 0x71, 0x82, 0x93, 0xa4]"

definition hex1 :: string where
  "hex1 = ''507f1f77bcf86cd799439011''"

definition hex2 :: string where
  "hex2 = ''654a1b2c3d4e5f60718293a4''"

definition user1 :: User where
  "user1 = \<lparr>User.ID = oid1, Name = ''Alice''\<rparr>"

definition post1 :: Post where
  "post1 = \<lparr>Post.ID = NilObjectID, UserID = hex1, Title = ''T'', Content = ''C''\<rparr>"

definition empty_collection :: "'a collection" where
  "empty_collection = \<lparr>docs = [], ops = []\<rparr>"

definition post2 :: Post where
  "post2 = \<lparr>Post.ID = oid2, UserID = hex1, Title = ''T'', Content = ''C''\<rparr>"

text \<open>A network on which the one URL asked for \<open>userID\<close> is served by the User Service.\<close>

definition relaying :: "string \<Rightarrow> nat \<Rightarrow> error option \<Rightarrow> User collection \<Rightarrow> env" where
  "relaying userID t fault users =
     \<lparr>getenv = no_env,
      http_Get = (\<lambda>url. if url = ''http://localhost:8080/users/exists/'' @ userID
                         then Inr (deliver t (fst (userCheckUserExists fault userID users)))
                         else Inl ''no route to host'')\<rparr>"

definition users1 :: "User collection" where
  "users1 = \<lparr>docs = [user1], ops = []\<rparr>"

definition posts2 :: "Post collection" where
  "posts2 = \<lparr>docs = [post2], ops = []\<rparr>"

definition bad_id :: string where
  "bad_id = ''507f1f77bcf86cd79943901g''"

section \<open>Identifiers: hexadecimal text and back\<close>

lemma fromHexChar_hextable_upto:
  "\<forall>n \<in> set [0..<16]. fromHexChar (hextable ! n) = Some (of_nat n)"
  by (simp add: upt_rec fromHexChar_def hextable_def)

lemma fromHexChar_hextable:
  assumes "n < (16::nat)"
  shows "fromHexChar (hextable ! n) = Some (of_nat n)"
proof -
  from assms have "n \<in> set [0..<16]" by simp
  with fromHexChar_hextable_upto show ?thesis by blast
qed

lemma unat_high_nibble: "unat (drop_bit 4 (v :: byte)) < 16"
proof -
  have "unat v < 256" using unsigned_less [of v] by simp
  moreover have "unat (drop_bit 4 v) = unat v div 16"
    by (simp add: drop_bit_eq_div unat_div)
  ultimately show ?thesis by simp
qed

lemma unat_low_nibble: "unat ((v :: byte) AND 15) < 16"
proof -
  have "v AND 15 = take_bit 4 v"
    by (simp add: take_bit_eq_mask mask_eq_exp_minus_1)
  moreover have "take_bit 4 (unat v) < 2 ^ 4"
    by (rule take_bit_nat_less_exp)
  ultimately show ?thesis
    by (simp add: unsigned_take_bit_eq)
qed

lemma nibbles_join: "push_bit 4 (drop_bit 4 v) OR (v AND 15) = (v :: byte)"
proof -
  have "(15 :: byte) = mask 4" by (simp add: mask_eq_exp_minus_1)
  then show ?thesis
    by (simp add: bit_eq_iff bit_simps flip: take_bit_eq_mask) (auto simp: not_le)
qed

lemma hex_Decode_EncodeToString: "hex_Decode (hex_EncodeToString bs) = Inr bs"
proof (induction bs)
  case Nil
  show ?case by (simp add: hex_EncodeToString_def)
next
  case (Cons v bs)
  have "hex_EncodeToString (v # bs)
          = hextable ! unat (drop_bit 4 v) # hextable ! unat (v AND 15) # hex_EncodeToString bs"
    by (simp add: hex_EncodeToString_def)
  then show ?case
    using Cons.IH
    by (simp add: fromHexChar_hextable unat_high_nibble unat_low_nibble nibbles_join)
qed

lemma length_hex_EncodeToString: "length (hex_EncodeToString bs) = 2 * length bs"
  by (induction bs) (simp_all add: hex_EncodeToString_def)

lemma ObjectIDFromHex_Hex: "ObjectIDFromHex (Hex oid) = Inr oid"
proof -
  have len: "length (Rep_ObjectID oid) = 12" using Rep_ObjectID [of oid] by simp
  then show ?thesis
    by (simp add: ObjectIDFromHex_def Hex_def length_hex_EncodeToString
        hex_Decode_EncodeToString Rep_ObjectID_inverse)
qed

lemma hex_codes:
  "(of_char ` set ''0123456789abcdefABCDEF'' :: nat set)
     = {48, 49, 50, 51, 52, 53, 54, 55, 56, 57, 97, 98, 99, 100, 101, 102, 65, 66, 67, 68, 69, 70}"
  by simp

lemma hex_code_ranges:
  "(n::nat) \<in> {48, 49, 50, 51, 52, 53, 54, 55, 56, 57, 97, 98, 99, 100, 101, 102, 65, 66, 67, 68, 69, 70}
     \<longleftrightarrow> 48 \<le> n \<and> n \<le> 57 \<or> 97 \<le> n \<and> n \<le> 102 \<or> 65 \<le> n \<and> n \<le> 70"
  by (simp only: insert_iff empty_iff) arith

lemma isHexDigit_code:
  "isHexDigit c \<longleftrightarrow> 48 \<le> (of_char c :: nat) \<and> (of_char c :: nat) \<le> 57
     \<or> 97 \<le> (of_char c :: nat) \<and> (of_char c :: nat) \<le> 102
     \<or> 65 \<le> (of_char c :: nat) \<and> (of_char c :: nat) \<le> 70"
proof -
  have "isHexDigit c \<longleftrightarrow> (of_char c :: nat) \<in> of_char ` set ''0123456789abcdefABCDEF''"
    unfolding isHexDigit_def by (rule inj_image_mem_iff [OF inj_of_char, symmetric])
  then show ?thesis
    by (simp only: hex_codes hex_code_ranges)
qed

lemma fromHexChar_Some_iff: "(\<exists>v. fromHexChar c = Some v) \<longleftrightarrow> isHexDigit c"
  unfolding isHexDigit_code by (simp add: fromHexChar_def Let_def)

lemma fromHexChar_None_iff: "fromHexChar c = None \<longleftrightarrow> \<not> isHexDigit c"
  using fromHexChar_Some_iff [of c] by (cases "fromHexChar c") simp_all

lemma hex_Decode_Inr_iff:
  "(\<exists>b. hex_Decode s = Inr b) \<longleftrightarrow> even (length s) \<and> list_all isHexDigit s"
proof (induction s rule: hex_Decode.induct)
  case (1 p q src)
  show ?case
  proof (cases "fromHexChar p")
    case None
    moreover from None have "\<not> isHexDigit p"
      by (simp add: fromHexChar_None_iff)
    ultimately show ?thesis by simp
  next
    case a: (Some a)
    show ?thesis
    proof (cases "fromHexChar q")
      case None
      moreover from None have "\<not> isHexDigit q"
        by (simp add: fromHexChar_None_iff)
      ultimately show ?thesis using a by simp
    next
      case b: (Some b)
      from "1.IH" [OF a b]
      have "(\<exists>b. hex_Decode src = Inr b) \<longleftrightarrow> even (length src) \<and> list_all isHexDigit src" .
      moreover from a b have "isHexDigit p" "isHexDigit q"
        using fromHexChar_Some_iff by blast+
      ultimately show ?thesis
        using a b by (cases "hex_Decode src") simp_all
    qed
  qed
next
  case (2 p)
  show ?case by (simp split: option.splits)
next
  case 3
  show ?case by simp
qed

lemma ObjectIDFromHex_Inr_iff:
  "(\<exists>objID. ObjectIDFromHex s = Inr objID) \<longleftrightarrow> length s = 24 \<and> list_all isHexDigit s"
proof (cases "length s = 24")
  case True
  then have "even (length s)" by simp
  with True hex_Decode_Inr_iff [of s] show ?thesis
    by (auto simp: ObjectIDFromHex_def split: sum.splits)
next
  case False
  then show ?thesis by (simp add: ObjectIDFromHex_def)
qed

section \<open>The Verification Client and its callers, case by case\<close>

lemma Decode_H_exists [simp]:
  "Decode (Document (H_exists i b)) r = Inr (r\<lparr>result.ID := i, Exists := b\<rparr>)"
  by (simp add: Decode_def decodeField_def asciiLower_def H_exists_def)

lemma Decode_H_error [simp]: "Decode (Document (H_error msg)) r = Inr r"
  by (simp add: Decode_def decodeField_def asciiLower_def H_error_def)

lemma checkUserExists_transport_error:
  "http_Get e (existsURL e userID) = Inl err \<Longrightarrow> checkUserExists e userID = (False, Some err)"
  by (simp add: checkUserExists_def)

lemma checkUserExists_decode_error:
  "http_Get e (existsURL e userID) = Inr resp
     \<Longrightarrow> Decode (Body resp) \<lparr>result.ID = [], Exists = False\<rparr> = Inl err
     \<Longrightarrow> checkUserExists e userID = (False, Some err)"
  by (simp add: checkUserExists_def)

lemma checkUserExists_decoded:
  "http_Get e (existsURL e userID) = Inr resp
     \<Longrightarrow> Decode (Body resp) \<lparr>result.ID = [], Exists = False\<rparr> = Inr res
     \<Longrightarrow> checkUserExists e userID = (Exists res, None)"
  by (simp add: checkUserExists_def)

lemma createPost_error:
  "snd (checkUserExists e (UserID newPost)) = Some err
     \<Longrightarrow> createPost e (Inr newPost) generated fault postCollection
         = (JSON 502 (H_error ''cannot connect to user-service''), postCollection)"
  by (cases "checkUserExists e (UserID newPost)") (simp add: createPost_def)

lemma createPost_absent:
  "checkUserExists e (UserID newPost) = (False, None)
     \<Longrightarrow> createPost e (Inr newPost) generated fault postCollection
         = (JSON 404 (H_error ''user does not exist''), postCollection)"
  by (simp add: createPost_def)

lemma createPost_present:
  "checkUserExists e (UserID newPost) = (True, None)
     \<Longrightarrow> createPost e (Inr newPost) generated fault postCollection
         = (case InsertOne fault generated Post.ID (\<lambda>i p. p\<lparr>Post.ID := i\<rparr>) newPost
                  postCollection of
              (Inl err, coll') \<Rightarrow> (JSON 500 (H_error err), coll')
            | (Inr InsertedID, coll') \<Rightarrow>
                (JSON 201 (Post_json (newPost\<lparr>Post.ID := InsertedID\<rparr>)), coll'))"
  by (simp add: createPost_def)

lemma getPostsByUserID_error:
  "snd (checkUserExists e userID) = Some err
     \<Longrightarrow> getPostsByUserID e userID find_fault all_fault postCollection
         = (JSON 502 (H_error ''cannot connect to user-service''), postCollection)"
  by (cases "checkUserExists e userID") (simp add: getPostsByUserID_def)

lemma getPostsByUserID_absent:
  "checkUserExists e userID = (False, None)
     \<Longrightarrow> getPostsByUserID e userID find_fault all_fault postCollection
         = (JSON 404 (H_error ''user does not exist''), postCollection)"
  by (simp add: getPostsByUserID_def)

lemma createPost_404_only_absent:
  "status (fst (createPost e (Inr newPost) generated fault postCollection)) = 404
     \<Longrightarrow> checkUserExists e (UserID newPost) = (False, None)"
proof -
  assume st: "status (fst (createPost e (Inr newPost) generated fault postCollection)) = 404"
  obtain exists err where c: "checkUserExists e (UserID newPost) = (exists, err)"
    by (cases "checkUserExists e (UserID newPost)")
  show ?thesis
  proof (cases err)
    case (Some x)
    with c st show ?thesis by (simp add: createPost_def JSON_def)
  next
    case None
    show ?thesis
    proof (cases exists)
      case False
      with c None show ?thesis by simp
    next
      case True
      with c None st show ?thesis
        by (simp add: createPost_def JSON_def InsertOne_def Let_def
            split: option.splits if_splits)
    qed
  qed
qed

lemma getPostsByUserID_404_only_absent:
  "status (fst (getPostsByUserID e userID find_fault all_fault postCollection)) = 404
     \<Longrightarrow> checkUserExists e userID = (False, None)"
proof -
  assume st: "status (fst (getPostsByUserID e userID find_fault all_fault postCollection)) = 404"
  obtain exists err where c: "checkUserExists e userID = (exists, err)"
    by (cases "checkUserExists e userID")
  show ?thesis
  proof (cases err)
    case (Some x)
    with c st show ?thesis by (simp add: getPostsByUserID_def JSON_def)
  next
    case None
    show ?thesis
    proof (cases exists)
      case False
      with c None show ?thesis by simp
    next
      case True
      with c None st show ?thesis
        by (simp add: getPostsByUserID_def JSON_def Find_def cursor_All_def Let_def
            split: option.splits if_splits)
    qed
  qed
qed

lemma oracle_error_body:
  "status (fst (userCheckUserExists fault idParam users)) \<noteq> 200
     \<Longrightarrow> \<exists>msg. body (fst (userCheckUserExists fault idParam users)) = H_error msg"
  by (auto simp: userCheckUserExists_def CountDocuments_def Let_def JSON_def
      split: sum.splits option.splits)

lemma checkUserExists_error_body:
  "http_Get e (existsURL e userID) = Inr resp \<Longrightarrow> Body resp = Document (H_error msg)
     \<Longrightarrow> checkUserExists e userID = (False, None)"
  by (simp add: checkUserExists_def)

section \<open>The store: one document for each identifier\<close>

lemma set_remove_first: "set (remove_first flt ds) \<subseteq> set ds"
  by (induction ds) auto

lemma remove_first_unique:
  "distinct (map key ds) \<Longrightarrow> \<not> list_ex (\<lambda>d. key d = k) (remove_first (\<lambda>d. key d = k) ds)"
proof (induction ds)
  case Nil
  show ?case by simp
next
  case (Cons d ds)
  show ?case
  proof (cases "key d = k")
    case True
    with Cons.prems have "k \<notin> key ` set ds" by auto
    then have "\<not> list_ex (\<lambda>d. key d = k) ds"
      by (auto simp: list_ex_iff)
    moreover from True have "remove_first (\<lambda>d. key d = k) (d # ds) = ds"
      by simp
    ultimately show ?thesis by simp
  next
    case False
    with Cons show ?thesis by simp
  qed
qed

lemma distinct_remove_first:
  "distinct (map key ds) \<Longrightarrow> distinct (map key (remove_first flt ds))"
proof (induction ds)
  case Nil
  show ?case by simp
next
  case (Cons d ds)
  have "key ` set (remove_first flt ds) \<subseteq> key ` set ds"
    using set_remove_first [of flt ds] by blast
  with Cons show ?case by auto
qed

lemma deleteUser_200:
  assumes "deleteUser fault idParam users = (r, users')" and "status r = 200"
  shows "\<exists>objID. ObjectIDFromHex idParam = Inr objID
           \<and> docs users' = remove_first (\<lambda>u. User.ID u = objID) (docs users)"
  using assms
  by (auto simp: deleteUser_def DeleteOne_def Let_def JSON_def logged_def
      split: sum.splits option.splits if_splits)

lemma oracle_after_deletion:
  assumes "ObjectIDFromHex idParam = Inr objID"
    and "\<not> list_ex (\<lambda>u. User.ID u = objID) (docs users)"
  shows "fst (userCheckUserExists fault idParam users)
           = (case fault of None \<Rightarrow> JSON 200 (H_exists idParam False)
              | Some err \<Rightarrow> JSON 500 (H_error err))"
proof -
  from assms(2) have "filter (\<lambda>u. User.ID u = objID) (docs users) = []"
    by (simp add: filter_empty_conv list_ex_iff)
  with assms(1) show ?thesis
    by (simp add: userCheckUserExists_def CountDocuments_def Let_def split: option.splits)
qed

lemma DeleteOne_keeps_unique:
  "distinct (map key (docs coll)) \<Longrightarrow> distinct (map key (docs (snd (DeleteOne fault flt coll))))"
  by (simp add: DeleteOne_def Let_def logged_def distinct_remove_first split: option.splits)

lemma InsertOne_keeps_unique:
  assumes "\<And>i d. get_id (set_id i d) = i"
    and "distinct (map get_id (docs coll))"
  shows "distinct (map get_id (docs (snd (InsertOne fault generated get_id set_id document coll))))"
  using assms by (auto simp: InsertOne_def Let_def logged_def split: option.splits)

section \<open>The handlers on identifiers that parse\<close>

lemma deletePost_no_match:
  assumes "ObjectIDFromHex postID = Inr objID"
    and "\<not> list_ex (\<lambda>p. Post.ID p = objID) (docs postCollection)"
  shows "deletePost fault postID postCollection
           = (case fault of None \<Rightarrow> JSON 404 (H_error ''post not found'')
              | Some err \<Rightarrow> JSON 500 (H_error err),
              logged OpDeleteOne postCollection)"
  using assms by (simp add: deletePost_def DeleteOne_def Let_def split: option.splits)

lemma deletePost_each_no_match:
  assumes "ObjectIDFromHex postID = Inr objID"
  shows "\<not> list_ex (\<lambda>p. Post.ID p = objID) (docs postCollection)
           \<Longrightarrow> map status (fst (deletePost_each faults postID postCollection))
                 = map (\<lambda>fault. if fault = None then 404 else 500) faults
               \<and> docs (snd (deletePost_each faults postID postCollection)) = docs postCollection"
proof (induction faults arbitrary: postCollection)
  case Nil
  show ?case by simp
next
  case (Cons fault faults)
  let ?next = "logged OpDeleteOne postCollection"
  have same: "docs ?next = docs postCollection"
    by (simp add: logged_def)
  with Cons.prems have "\<not> list_ex (\<lambda>p. Post.ID p = objID) (docs ?next)"
    by simp
  from Cons.IH [OF this] same deletePost_no_match [OF assms Cons.prems, of fault]
  show ?case
    by (cases fault) (auto simp: JSON_def split: prod.splits)
qed

lemma deletePost_500_iff:
  "ObjectIDFromHex postID = Inr objID
     \<Longrightarrow> status (fst (deletePost fault postID postCollection)) = 500 \<longleftrightarrow> fault \<noteq> None"
  by (simp add: deletePost_def DeleteOne_def Let_def JSON_def split: option.splits)

lemma deletePost_200:
  assumes "status (fst (deletePost fault postID postCollection)) = 200"
  shows "\<exists>objID. ObjectIDFromHex postID = Inr objID
           \<and> docs (snd (deletePost fault postID postCollection))
               = remove_first (\<lambda>p. Post.ID p = objID) (docs postCollection)"
  using assms
  by (auto simp: deletePost_def DeleteOne_def Let_def JSON_def logged_def
      split: sum.splits option.splits if_splits)

lemma createUser_201:
  assumes "createUser bound newID generated fault userCollection = (r, users')"
    and "status r = 201" and "newID \<noteq> NilObjectID"
  shows "\<exists>decoded. bound = Inr decoded \<and> r = JSON 201 (User_json (decoded\<lparr>User.ID := newID\<rparr>))
           \<and> docs users' = docs userCollection @ [decoded\<lparr>User.ID := newID\<rparr>]"
proof (cases bound)
  case (Inl err)
  with assms show ?thesis by (auto simp: createUser_def JSON_def)
next
  case (Inr decoded)
  with assms show ?thesis
    by (auto simp: createUser_def InsertOne_def Let_def JSON_def logged_def
        split: option.splits if_splits)
qed

section \<open>The example inputs evaluated\<close>

lemma replicate_12: "replicate 12 x = [x, x, x, x, x, x, x, x, x, x, x, x]"
  by (simp add: numeral_eq_Suc)

lemma oid_simps [simp]:
  "oid1 \<noteq> NilObjectID" "oid2 \<noteq> NilObjectID" "oid1 \<noteq> oid2" "oid2 \<noteq> oid1"
  "NilObjectID \<noteq> oid1" "NilObjectID \<noteq> oid2"
  by (simp_all add: oid1_def oid2_def NilObjectID_def Abs_ObjectID_inject replicate_12)

lemma ObjectIDFromHex_hex1 [simp]: "ObjectIDFromHex hex1 = Inr oid1"
  by (simp add: ObjectIDFromHex_def hex1_def oid1_def fromHexChar_def)

lemma ObjectIDFromHex_hex2 [simp]: "ObjectIDFromHex hex2 = Inr oid2"
  by (simp add: ObjectIDFromHex_def hex2_def oid2_def fromHexChar_def)

lemma Hex_oid1 [simp]: "Hex oid1 = hex1"
  by (simp add: Hex_def oid1_def hex1_def Abs_ObjectID_inverse hex_EncodeToString_def
      hextable_def)

lemma Hex_oid2 [simp]: "Hex oid2 = hex2"
  by (simp add: Hex_def oid2_def hex2_def Abs_ObjectID_inverse hex_EncodeToString_def
      hextable_def)

lemma checkUserExists_answering [simp]:
  "checkUserExists (answering code (Document (H_exists i b)) t) userID = (b, None)"
  by (simp add: checkUserExists_def answering_def)

lemma checkUserExists_refusing [simp]:
  "checkUserExists refusing userID = (False, Some ''connection refused'')"
  by (simp add: checkUserExists_def refusing_def)

lemma ObjectIDFromHex_bad_id [simp]:
  "ObjectIDFromHex bad_id = Inl (InvalidByteError CHR ''g'')"
  by (simp add: ObjectIDFromHex_def bad_id_def fromHexChar_def)

lemma existsURL_no_env [simp]:
  "getenv e = no_env \<Longrightarrow> existsURL e userID = ''http://localhost:8080/users/exists/'' @ userID"
  by (simp add: existsURL_def no_env_def)

lemma http_Get_relaying [simp]:
  "http_Get (relaying userID t fault users) (existsURL (relaying userID t fault users) userID)
     = Inr (deliver t (fst (userCheckUserExists fault userID users)))"
  by (simp add: relaying_def)

lemma answered_by_relaying [simp]:
  "answered_by (relaying userID t fault users) userID t fault users"
  by (simp add: answered_by_def relaying_def existsURL_def no_env_def)

lemma oracle_users1_hex1:
  "fst (userCheckUserExists None hex1 users1) = JSON 200 (H_exists hex1 True)"
  by (simp add: userCheckUserExists_def CountDocuments_def users1_def user1_def)

lemma checkUserExists_users1_hex1:
  "checkUserExists (relaying hex1 3 None users1) hex1 = (True, None)"
  by (simp add: checkUserExists_def oracle_users1_hex1 deliver_def JSON_def)

lemma getPostsByUserID_users1_hex1:
  "getPostsByUserID (relaying hex1 3 None users1) hex1 None None posts2
     = (JSON 200 (JObject [(''posts'', JArray [Post_json post2]), (''user_id'', JString hex1)]),
        \<lparr>docs = [post2], ops = [OpFind]\<rparr>)"
  by (simp add: getPostsByUserID_def checkUserExists_users1_hex1 Find_def cursor_All_def posts2_def post2_def
        posts_json_def logged_def)

lemma deleteUser_users1_hex1:
  "deleteUser None hex1 users1
     = (JSON 200 (H_message ''deleted successfully''), \<lparr>docs = [], ops = [OpDeleteOne]\<rparr>)"
  by (simp add: deleteUser_def DeleteOne_def users1_def user1_def logged_def)

lemma oracle_deleted_hex1:
  "fst (userCheckUserExists None hex1 \<lparr>docs = [], ops = [OpDeleteOne]\<rparr>)
     = JSON 200 (H_exists hex1 False)"
  by (simp add: userCheckUserExists_def CountDocuments_def)

lemma checkUserExists_deleted_hex1:
  "checkUserExists (relaying hex1 3 None \<lparr>docs = [], ops = [OpDeleteOne]\<rparr>) hex1
     = (False, None)"
  by (simp add: checkUserExists_def oracle_deleted_hex1 deliver_def JSON_def)

lemma deletePost_posts2_hex2:
  "deletePost None hex2 posts2
     = (JSON 200 (H_message ''post deleted''), \<lparr>docs = [], ops = [OpDeleteOne]\<rparr>)"
  by (simp add: deletePost_def DeleteOne_def posts2_def post2_def logged_def)

lemma createUser_alice:
  "createUser (Inr \<lparr>User.ID = NilObjectID, Name = ''Alice''\<rparr>) oid1 oid2 None empty_collection
     = (JSON 201 (User_json user1), \<lparr>docs = [user1], ops = [OpInsertOne]\<rparr>)"
  by (simp add: createUser_def InsertOne_def empty_collection_def logged_def user1_def Let_def)

section \<open>The claims\<close>

text \<open>
  Claim C1. Whenever the Verification Client of a create-post request comes back with an
  error, be it that \<open>http.Get\<close> failed (a transport error) or that the body could not be
  decoded, \<open>createPost\<close> answers 502 and hands the post collection back as it was: no
  document is added and no \<open>InsertOne\<close> is logged, whatever the store would have done.
\<close>

theorem createPost_verification_failure:
  assumes "http_Get e (existsURL e (UserID newPost)) = Inl err
             \<or> (\<exists>resp. http_Get e (existsURL e (UserID newPost)) = Inr resp
                   \<and> Decode (Body resp) \<lparr>result.ID = [], Exists = False\<rparr> = Inl err)"
  shows "checkUserExists e (UserID newPost) = (False, Some err)
           \<and> createPost e (Inr newPost) generated fault postCollection
               = (JSON 502 (H_error ''cannot connect to user-service''), postCollection)"
proof -
  from assms have "checkUserExists e (UserID newPost) = (False, Some err)"
    by (auto simp: checkUserExists_transport_error checkUserExists_decode_error)
  then show ?thesis by (simp add: createPost_error)
qed

theorem createPost_verification_failure_witness:
  "http_Get refusing (existsURL refusing (UserID post1)) = Inl ''connection refused''
   \<and> createPost refusing (Inr post1) oid2 None empty_collection
       = (\<lparr>status = 502, body = JObject [(''error'', JString ''cannot connect to user-service'')]\<rparr>,
          empty_collection)
   \<and> http_Get (answering 200 (Malformed ''unexpected EOF'') 3)
         (existsURL (answering 200 (Malformed ''unexpected EOF'') 3) (UserID post1))
       = Inr \<lparr>StatusCode = 200, Body = Malformed ''unexpected EOF'', elapsed_ms = 3\<rparr>
   \<and> Decode (Malformed ''unexpected EOF'') \<lparr>result.ID = [], Exists = False\<rparr>
       = Inl ''unexpected EOF''
   \<and> createPost (answering 200 (Malformed ''unexpected EOF'') 3) (Inr post1) oid2 None
         empty_collection
       = (\<lparr>status = 502, body = JObject [(''error'', JString ''cannot connect to user-service'')]\<rparr>,
          empty_collection)"
  using createPost_verification_failure
          [of refusing post1 "''connection refused''" oid2 None empty_collection]
        createPost_verification_failure
          [of "answering 200 (Malformed ''unexpected EOF'') 3" post1 "''unexpected EOF''" oid2
              None empty_collection]
  by (simp add: JSON_def H_error_def Decode_def refusing_def answering_def)

text \<open>
  Claim C2. When the verification of a create-post request completes and reports that the
  user does not exist, \<open>createPost\<close> answers 404 and hands the post collection back as it
  was. The collection is touched, or 201 answered, only for a request whose body was bound
  and whose verification reported \<open>exists = true\<close> without error. In that case, when
  \<open>InsertOne\<close> returns an inserted identifier, the answer is 201 and its body is the post
  with that identifier: \<open>id\<close> is the inserted identifier in hexadecimal, and \<open>user_id\<close>,
  \<open>title\<close> and \<open>content\<close> are those of the request. This very record is the document
  appended to the collection.
\<close>

theorem createPost_after_verification:
  "(checkUserExists e (UserID newPost) = (False, None)
      \<longrightarrow> createPost e (Inr newPost) generated fault postCollection
            = (JSON 404 (H_error ''user does not exist''), postCollection))
   \<and> (snd (createPost e bound generated fault postCollection) \<noteq> postCollection
         \<or> status (fst (createPost e bound generated fault postCollection)) = 201
      \<longrightarrow> (\<exists>p. bound = Inr p \<and> checkUserExists e (UserID p) = (True, None)))
   \<and> (checkUserExists e (UserID newPost) = (True, None)
         \<and> InsertOne fault generated Post.ID (\<lambda>i p. p\<lparr>Post.ID := i\<rparr>) newPost postCollection
             = (Inr InsertedID, coll')
      \<longrightarrow> createPost e (Inr newPost) generated fault postCollection
            = (\<lparr>status = 201,
                body = JObject [(''id'', JString (Hex InsertedID)),
                                (''user_id'', JString (UserID newPost)),
                                (''title'', JString (Title newPost)),
                                (''content'', JString (Content newPost))]\<rparr>,
               coll')
          \<and> docs coll' = docs postCollection @ [newPost\<lparr>Post.ID := InsertedID\<rparr>])"
proof (intro conjI impI)
  assume "checkUserExists e (UserID newPost) = (False, None)"
  then show "createPost e (Inr newPost) generated fault postCollection
               = (JSON 404 (H_error ''user does not exist''), postCollection)"
    by (rule createPost_absent)
next
  assume changed: "snd (createPost e bound generated fault postCollection) \<noteq> postCollection
         \<or> status (fst (createPost e bound generated fault postCollection)) = 201"
  show "\<exists>p. bound = Inr p \<and> checkUserExists e (UserID p) = (True, None)"
  proof (cases bound)
    case (Inl err)
    with changed show ?thesis by (simp add: createPost_def JSON_def)
  next
    case (Inr p)
    obtain exists err where c: "checkUserExists e (UserID p) = (exists, err)"
      by (cases "checkUserExists e (UserID p)")
    with changed Inr have "exists \<and> err = None"
      by (cases err; cases exists) (simp_all add: createPost_def JSON_def)
    with c Inr show ?thesis by simp
  qed
next
  assume a: "checkUserExists e (UserID newPost) = (True, None)
         \<and> InsertOne fault generated Post.ID (\<lambda>i p. p\<lparr>Post.ID := i\<rparr>) newPost postCollection
             = (Inr InsertedID, coll')"
  then show "createPost e (Inr newPost) generated fault postCollection
            = (\<lparr>status = 201,
                body = JObject [(''id'', JString (Hex InsertedID)),
                                (''user_id'', JString (UserID newPost)),
                                (''title'', JString (Title newPost)),
                                (''content'', JString (Content newPost))]\<rparr>,
               coll')"
    by (simp add: createPost_present JSON_def Post_json_def)
  from a have "InsertOne fault generated Post.ID (\<lambda>i p. p\<lparr>Post.ID := i\<rparr>) newPost postCollection
             = (Inr InsertedID, coll')"
    by simp
  then show "docs coll' = docs postCollection @ [newPost\<lparr>Post.ID := InsertedID\<rparr>]"
    by (auto simp: InsertOne_def Let_def logged_def split: option.splits if_splits)
qed

theorem createPost_after_verification_witness:
  "checkUserExists (answering 200 (Document (H_exists hex1 False)) 3) (UserID post1)
     = (False, None)
   \<and> createPost (answering 200 (Document (H_exists hex1 False)) 3) (Inr post1) oid2 None
        empty_collection
      = (JSON 404 (H_error ''user does not exist''), empty_collection)
   \<and> checkUserExists (answering 200 (Document (H_exists hex1 True)) 3) (UserID post1)
     = (True, None)
   \<and> InsertOne None oid2 Post.ID (\<lambda>i p. p\<lparr>Post.ID := i\<rparr>) post1 empty_collection
      = (Inr oid2, \<lparr>docs = [post1\<lparr>Post.ID := oid2\<rparr>], ops = [OpInsertOne]\<rparr>)
   \<and> createPost (answering 200 (Document (H_exists hex1 True)) 3) (Inr post1) oid2 None
        empty_collection
      = (\<lparr>status = 201,
          body = JObject [(''id'', JString ''654a1b2c3d4e5f60718293a4''),
                          (''user_id'', JString ''507f1f77bcf86cd799439011''),
                          (''title'', JString ''T''), (''content'', JString ''C'')]\<rparr>,
         \<lparr>docs = [\<lparr>Post.ID = oid2, UserID = ''507f1f77bcf86cd799439011'', Title = ''T'',
                   Content = ''C''\<rparr>],
          ops = [OpInsertOne]\<rparr>)
   \<and> snd (createPost (answering 200 (Document (H_exists hex1 True)) 3) (Inr post1) oid2 None
        empty_collection) \<noteq> empty_collection"
proof -
  let ?no = "answering 200 (Document (H_exists hex1 False)) 3"
  let ?yes = "answering 200 (Document (H_exists hex1 True)) 3"
  let ?after = "\<lparr>docs = [post1\<lparr>Post.ID := oid2\<rparr>], ops = [OpInsertOne]\<rparr>"
  have no: "checkUserExists ?no (UserID post1) = (False, None)"
    and yes: "checkUserExists ?yes (UserID post1) = (True, None)"
    by simp_all
  have ins: "InsertOne None oid2 Post.ID (\<lambda>i p. p\<lparr>Post.ID := i\<rparr>) post1 empty_collection
      = (Inr oid2, ?after)"
    by (simp add: InsertOne_def empty_collection_def logged_def post1_def)
  have differ: "?after \<noteq> empty_collection"
    by (simp add: empty_collection_def)
  have fields: "UserID post1 = ''507f1f77bcf86cd799439011''" "Title post1 = ''T''"
    "Content post1 = ''C''" "Hex oid2 = ''654a1b2c3d4e5f60718293a4''"
    "post1\<lparr>Post.ID := oid2\<rparr>
       = \<lparr>Post.ID = oid2, UserID = ''507f1f77bcf86cd799439011'', Title = ''T'', Content = ''C''\<rparr>"
    by (simp_all add: post1_def hex1_def hex2_def)
  have created: "createPost ?yes (Inr post1) oid2 None empty_collection
      = (\<lparr>status = 201,
          body = JObject [(''id'', JString (Hex oid2)), (''user_id'', JString (UserID post1)),
                          (''title'', JString (Title post1)),
                          (''content'', JString (Content post1))]\<rparr>,
         ?after)"
    using createPost_after_verification
            [of ?yes post1 oid2 None empty_collection "Inr post1" oid2 ?after] yes ins
    by blast
  have refused: "createPost ?no (Inr post1) oid2 None empty_collection
      = (JSON 404 (H_error ''user does not exist''), empty_collection)"
    using createPost_after_verification [of ?no post1 oid2 None empty_collection "Inr post1"] no
    by blast
  from no yes ins differ refused created show ?thesis
    by (simp only: fields snd_conv simp_thms)
qed

text \<open>
  Claim C3. The Verification Client has three outcomes. When \<open>http.Get\<close> fails, its
  error is returned; when the exchange succeeds but the body cannot be decoded into
  \<open>{id, exists}\<close>, the decoder's error is returned; when the body decodes, the decoded
  boolean is returned with no error, and the reply \<open>{"exists": b, "id": i}\<close> of the
  existence endpoint does decode, to \<open>i\<close> and \<open>b\<close>. The callers keep the outcomes apart: an
  error is answered 502 by the list and the create handler, and either of them answers 404
  only when the client returned \<open>false\<close> together with no error.
\<close>

theorem checkUserExists_outcomes:
  "(http_Get e (existsURL e userID) = Inl err \<longrightarrow> checkUserExists e userID = (False, Some err))
   \<and> (http_Get e (existsURL e userID) = Inr resp
         \<and> Decode (Body resp) \<lparr>result.ID = [], Exists = False\<rparr> = Inl err
       \<longrightarrow> checkUserExists e userID = (False, Some err))
   \<and> (http_Get e (existsURL e userID) = Inr resp
         \<and> Decode (Body resp) \<lparr>result.ID = [], Exists = False\<rparr> = Inr res
       \<longrightarrow> checkUserExists e userID = (Exists res, None))
   \<and> Decode (Document (H_exists i b)) \<lparr>result.ID = [], Exists = False\<rparr>
       = Inr \<lparr>result.ID = i, Exists = b\<rparr>
   \<and> (snd (checkUserExists e userID) \<noteq> None
       \<longrightarrow> status (fst (getPostsByUserID e userID find_fault all_fault postCollection)) = 502
         \<and> status (fst (createPost e (Inr (newPost\<lparr>UserID := userID\<rparr>)) generated fault
                          postCollection)) = 502)
   \<and> (status (fst (getPostsByUserID e userID find_fault all_fault postCollection)) = 404
         \<or> status (fst (createPost e (Inr (newPost\<lparr>UserID := userID\<rparr>)) generated fault
                          postCollection)) = 404
       \<longrightarrow> checkUserExists e userID = (False, None))"
proof (intro conjI impI)
  show "Decode (Document (H_exists i b)) \<lparr>result.ID = [], Exists = False\<rparr>
       = Inr \<lparr>result.ID = i, Exists = b\<rparr>"
    by simp
next
  assume "snd (checkUserExists e userID) \<noteq> None"
  then obtain x where x: "snd (checkUserExists e userID) = Some x" by blast
  then show "status (fst (getPostsByUserID e userID find_fault all_fault postCollection)) = 502"
    by (simp add: getPostsByUserID_error JSON_def)
  from x have "snd (checkUserExists e (UserID (newPost\<lparr>UserID := userID\<rparr>))) = Some x" by simp
  then show "status (fst (createPost e (Inr (newPost\<lparr>UserID := userID\<rparr>)) generated fault
                          postCollection)) = 502"
    by (simp only: createPost_error) (simp add: JSON_def)
next
  assume "status (fst (getPostsByUserID e userID find_fault all_fault postCollection)) = 404
         \<or> status (fst (createPost e (Inr (newPost\<lparr>UserID := userID\<rparr>)) generated fault
                          postCollection)) = 404"
  then show "checkUserExists e userID = (False, None)"
    using createPost_404_only_absent [of e "newPost\<lparr>UserID := userID\<rparr>" generated fault postCollection]
      getPostsByUserID_404_only_absent [of e userID find_fault all_fault postCollection]
    by auto
qed (simp_all add: checkUserExists_def)

theorem checkUserExists_outcomes_witness:
  "http_Get refusing (existsURL refusing hex1) = Inl ''connection refused''
   \<and> checkUserExists refusing hex1 = (False, Some ''connection refused'')
   \<and> status (fst (getPostsByUserID refusing hex1 None None empty_collection)) = 502
   \<and> status (fst (createPost refusing (Inr post1) oid2 None empty_collection)) = 502
   \<and> Decode (Malformed ''unexpected EOF'') \<lparr>result.ID = [], Exists = False\<rparr>
       = Inl ''unexpected EOF''
   \<and> checkUserExists (answering 200 (Malformed ''unexpected EOF'') 3) hex1
       = (False, Some ''unexpected EOF'')
   \<and> Decode (Document (H_exists hex1 True)) \<lparr>result.ID = [], Exists = False\<rparr>
       = Inr \<lparr>result.ID = hex1, Exists = True\<rparr>
   \<and> checkUserExists (answering 200 (Document (H_exists hex1 True)) 3) hex1 = (True, None)
   \<and> checkUserExists (answering 200 (Document (H_exists hex1 False)) 3) hex1 = (False, None)
   \<and> status (fst (getPostsByUserID (answering 200 (Document (H_exists hex1 False)) 3) hex1
                    None None empty_collection)) = 404
   \<and> status (fst (createPost (answering 200 (Document (H_exists hex1 False)) 3) (Inr post1)
                    oid2 None empty_collection)) = 404"
proof -
  let ?bad = "answering 200 (Malformed ''unexpected EOF'') 3"
  let ?yes = "answering 200 (Document (H_exists hex1 True)) 3"
  let ?no = "answering 200 (Document (H_exists hex1 False)) 3"
  have post: "post1\<lparr>UserID := hex1\<rparr> = post1"
    by (simp add: post1_def)
  have get: "http_Get refusing (existsURL refusing hex1) = Inl ''connection refused''"
    "http_Get ?bad (existsURL ?bad hex1)
       = Inr \<lparr>StatusCode = 200, Body = Malformed ''unexpected EOF'', elapsed_ms = 3\<rparr>"
    "http_Get ?yes (existsURL ?yes hex1)
       = Inr \<lparr>StatusCode = 200, Body = Document (H_exists hex1 True), elapsed_ms = 3\<rparr>"
    by (simp_all add: refusing_def answering_def)
  have dec: "Decode (Malformed ''unexpected EOF'') \<lparr>result.ID = [], Exists = False\<rparr>
       = Inl ''unexpected EOF''"
    by (simp add: Decode_def)
  have no404: "status (fst (getPostsByUserID ?no hex1 None None empty_collection)) = 404"
    "status (fst (createPost ?no (Inr post1) oid2 None empty_collection)) = 404"
    by (simp_all add: getPostsByUserID_absent createPost_absent post1_def JSON_def)
  from get dec no404 post show ?thesis
    using checkUserExists_outcomes
            [of refusing hex1 "''connection refused''" _ _ _ _ None None empty_collection
                post1 oid2 None]
          checkUserExists_outcomes
            [of ?bad hex1 "''unexpected EOF''"
                "\<lparr>StatusCode = 200, Body = Malformed ''unexpected EOF'', elapsed_ms = 3\<rparr>"]
          checkUserExists_outcomes
            [of ?yes hex1 _
                "\<lparr>StatusCode = 200, Body = Document (H_exists hex1 True), elapsed_ms = 3\<rparr>"
                "\<lparr>result.ID = hex1, Exists = True\<rparr>" hex1 True]
          checkUserExists_outcomes
            [of ?no hex1 _ _ _ _ _ None None empty_collection post1 oid2 None]
    by simp
qed

text \<open>
  Claim C4. The Verification Client never looks at the status code: two exchanges whose
  bodies agree give the same outcome. A body \<open>{"error": msg}\<close> decodes without error to
  \<open>exists = false\<close>. So when the existence endpoint answers the client with anything but
  200, which is 400 (the identifier does not parse) or 500 (the count failed), the list and
  the create handler answer 404 "user does not exist", not 502 and not the 400 or 500, and
  leave the post collection alone.
\<close>

theorem oracle_errors_read_as_absent:
  "(http_Get e (existsURL e userID) = Inr resp
       \<and> http_Get e' (existsURL e' userID') = Inr resp' \<and> Body resp' = Body resp
     \<longrightarrow> checkUserExists e' userID' = checkUserExists e userID)
   \<and> (http_Get e (existsURL e userID) = Inr resp \<and> Body resp = Document (H_error msg)
     \<longrightarrow> checkUserExists e userID = (False, None))
   \<and> (answered_by e userID t ufault users
         \<and> status (fst (userCheckUserExists ufault userID users)) \<noteq> 200
     \<longrightarrow> status (fst (userCheckUserExists ufault userID users)) \<in> {400, 500}
         \<and> checkUserExists e userID = (False, None)
         \<and> getPostsByUserID e userID find_fault all_fault postCollection
             = (JSON 404 (H_error ''user does not exist''), postCollection)
         \<and> createPost e (Inr (newPost\<lparr>UserID := userID\<rparr>)) generated fault postCollection
             = (JSON 404 (H_error ''user does not exist''), postCollection))"
proof (intro conjI impI)
  assume "http_Get e (existsURL e userID) = Inr resp
       \<and> http_Get e' (existsURL e' userID') = Inr resp' \<and> Body resp' = Body resp"
  then show "checkUserExists e' userID' = checkUserExists e userID"
    by (simp add: checkUserExists_def)
next
  assume "http_Get e (existsURL e userID) = Inr resp \<and> Body resp = Document (H_error msg)"
  then show "checkUserExists e userID = (False, None)"
    by (simp add: checkUserExists_error_body)
next
  assume a: "answered_by e userID t ufault users
         \<and> status (fst (userCheckUserExists ufault userID users)) \<noteq> 200"
  then show "status (fst (userCheckUserExists ufault userID users)) \<in> {400, 500}"
    by (auto simp: userCheckUserExists_def CountDocuments_def Let_def JSON_def
        split: sum.splits option.splits)
  from a obtain msg where "body (fst (userCheckUserExists ufault userID users)) = H_error msg"
    using oracle_error_body by blast
  with a have absent: "checkUserExists e userID = (False, None)"
    by (simp add: answered_by_def checkUserExists_def deliver_def)
  then show "checkUserExists e userID = (False, None)" .
  from absent show "getPostsByUserID e userID find_fault all_fault postCollection
             = (JSON 404 (H_error ''user does not exist''), postCollection)"
    by (rule getPostsByUserID_absent)
  from absent have "checkUserExists e (UserID (newPost\<lparr>UserID := userID\<rparr>)) = (False, None)"
    by simp
  then show "createPost e (Inr (newPost\<lparr>UserID := userID\<rparr>)) generated fault postCollection
             = (JSON 404 (H_error ''user does not exist''), postCollection)"
    by (rule createPost_absent)
qed

theorem oracle_errors_read_as_absent_witness:
  "checkUserExists (answering 400 (Document (H_exists hex1 True)) 3) hex1
     = checkUserExists (answering 200 (Document (H_exists hex1 True)) 3) hex1
   \<and> checkUserExists (answering 500 (Document (H_error ''server selection timeout'')) 3) hex1
     = (False, None)
   \<and> answered_by (relaying bad_id 3 None users1) bad_id 3 None users1
   \<and> status (fst (userCheckUserExists None bad_id users1)) = 400
   \<and> getPostsByUserID (relaying bad_id 3 None users1) bad_id None None empty_collection
       = (JSON 404 (H_error ''user does not exist''), empty_collection)
   \<and> answered_by (relaying hex1 3 (Some ''server selection timeout'') users1) hex1 3
        (Some ''server selection timeout'') users1
   \<and> status (fst (userCheckUserExists (Some ''server selection timeout'') hex1 users1)) = 500
   \<and> createPost (relaying hex1 3 (Some ''server selection timeout'') users1) (Inr post1) oid2 None
        empty_collection
       = (JSON 404 (H_error ''user does not exist''), empty_collection)"
proof -
  let ?a400 = "answering 400 (Document (H_exists hex1 True)) 3"
  let ?a200 = "answering 200 (Document (H_exists hex1 True)) 3"
  let ?a500 = "answering 500 (Document (H_error ''server selection timeout'')) 3"
  let ?down = "Some ''server selection timeout''"
  have post: "post1\<lparr>UserID := hex1\<rparr> = post1"
    by (simp add: post1_def)
  have get: "http_Get ?a200 (existsURL ?a200 hex1)
               = Inr \<lparr>StatusCode = 200, Body = Document (H_exists hex1 True), elapsed_ms = 3\<rparr>"
    "http_Get ?a400 (existsURL ?a400 hex1)
               = Inr \<lparr>StatusCode = 400, Body = Document (H_exists hex1 True), elapsed_ms = 3\<rparr>"
    "http_Get ?a500 (existsURL ?a500 hex1)
               = Inr \<lparr>StatusCode = 500, Body = Document (H_error ''server selection timeout''),
                      elapsed_ms = 3\<rparr>"
    by (simp_all add: answering_def)
  have st: "status (fst (userCheckUserExists None bad_id users1)) = 400"
    "status (fst (userCheckUserExists ?down hex1 users1)) = 500"
    by (simp_all add: userCheckUserExists_def CountDocuments_def JSON_def)
  from get st post show ?thesis
    using oracle_errors_read_as_absent
            [where e = ?a200 and userID = hex1 and e' = ?a400 and userID' = hex1
               and resp = "\<lparr>StatusCode = 200, Body = Document (H_exists hex1 True), elapsed_ms = 3\<rparr>"
               and resp' = "\<lparr>StatusCode = 400, Body = Document (H_exists hex1 True), elapsed_ms = 3\<rparr>"]
          oracle_errors_read_as_absent
            [where e = ?a500 and userID = hex1 and msg = "''server selection timeout''"
               and resp = "\<lparr>StatusCode = 500, Body = Document (H_error ''server selection timeout''),
                            elapsed_ms = 3\<rparr>"]
          oracle_errors_read_as_absent
            [where e = "relaying bad_id 3 None users1" and userID = bad_id and t = 3
               and ufault = None and users = users1 and find_fault = None and all_fault = None
               and postCollection = empty_collection]
          oracle_errors_read_as_absent
            [where e = "relaying hex1 3 ?down users1" and userID = hex1 and t = 3
               and ufault = ?down and users = users1 and newPost = post1 and generated = oid2
               and fault = None and postCollection = empty_collection]
    by simp
qed

text \<open>
  Claim C5. For an identifier that parses, when the count of the matching User documents
  comes back, the existence endpoint answers 200 with the identifier as it was sent and
  \<open>exists\<close> true exactly when the count is at least 1. The count is the number of
  documents of the collection with that identifier: it is 0, and the answer 200 with
  \<open>exists: false\<close> rather than 404, exactly when no document matches. No document is
  changed.
\<close>

theorem userCheckUserExists_counts:
  assumes "ObjectIDFromHex idParam = Inr objID"
    and "fst (CountDocuments fault (\<lambda>u. User.ID u = objID) userCollection) = Inr count"
  shows "fst (userCheckUserExists fault idParam userCollection)
           = \<lparr>status = 200,
              body = JObject [(''exists'', JBool (count \<ge> 1)), (''id'', JString idParam)]\<rparr>
         \<and> count = length (filter (\<lambda>u. User.ID u = objID) (docs userCollection))
         \<and> (count = 0 \<longleftrightarrow> (\<forall>u \<in> set (docs userCollection). User.ID u \<noteq> objID))
         \<and> docs (snd (userCheckUserExists fault idParam userCollection)) = docs userCollection"
proof -
  from assms(2) have none: "fault = None"
    and count: "count = length (filter (\<lambda>u. User.ID u = objID) (docs userCollection))"
    by (auto simp: CountDocuments_def Let_def split: option.splits)
  have "(count = 0) = (\<forall>u \<in> set (docs userCollection). User.ID u \<noteq> objID)"
    unfolding count by (simp add: filter_empty_conv)
  moreover have "(count \<ge> 1) = (count > 0)" by auto
  ultimately show ?thesis
    using assms(1) none count
    by (simp add: userCheckUserExists_def CountDocuments_def Let_def JSON_def H_exists_def
        logged_def)
qed

theorem userCheckUserExists_counts_witness:
  "ObjectIDFromHex hex2 = Inr oid2
   \<and> fst (CountDocuments None (\<lambda>u. User.ID u = oid2) users1) = Inr 0
   \<and> fst (userCheckUserExists None hex2 users1)
       = \<lparr>status = 200, body = JObject [(''exists'', JBool False), (''id'', JString hex2)]\<rparr>
   \<and> ObjectIDFromHex hex1 = Inr oid1
   \<and> fst (CountDocuments None (\<lambda>u. User.ID u = oid1) users1) = Inr 1
   \<and> fst (userCheckUserExists None hex1 users1)
       = \<lparr>status = 200, body = JObject [(''exists'', JBool True), (''id'', JString hex1)]\<rparr>"
proof -
  have c: "fst (CountDocuments None (\<lambda>u. User.ID u = oid2) users1) = Inr 0"
    "fst (CountDocuments None (\<lambda>u. User.ID u = oid1) users1) = Inr 1"
    by (simp_all add: CountDocuments_def users1_def user1_def)
  then show ?thesis
    using userCheckUserExists_counts [of hex2 oid2 None users1 0]
          userCheckUserExists_counts [of hex1 oid1 None users1 1]
    by simp
qed

text \<open>
  Claim C6. \<open>getPostsByUserID\<close> asks the Verification Client before it queries the post
  store. When the verification reports \<open>exists = false\<close> the answer is 404 and the post
  collection is handed back untouched (no \<open>Find\<close> is logged): it is not an empty list of
  posts. The store is queried, or 200 answered, only after the verification has reported
  \<open>exists = true\<close> without error. Hence, once \<open>DELETE /users/:id\<close> has answered 200 on a
  collection with one document for each identifier, a list request for that identifier
  that the existence endpoint answers gets 404, whatever posts are stored.
\<close>

theorem getPostsByUserID_after_verification:
  "(checkUserExists e userID = (False, None)
      \<longrightarrow> getPostsByUserID e userID find_fault all_fault postCollection
            = (JSON 404 (H_error ''user does not exist''), postCollection))
   \<and> (snd (getPostsByUserID e userID find_fault all_fault postCollection) \<noteq> postCollection
         \<or> status (fst (getPostsByUserID e userID find_fault all_fault postCollection)) = 200
      \<longrightarrow> checkUserExists e userID = (True, None))
   \<and> (distinct (map User.ID (docs users)) \<and> deleteUser delete_fault userID users = (r, users')
         \<and> status r = 200 \<and> answered_by e userID t count_fault users'
      \<longrightarrow> getPostsByUserID e userID find_fault all_fault postCollection
            = (JSON 404 (H_error ''user does not exist''), postCollection))"
proof (intro conjI impI)
  assume "checkUserExists e userID = (False, None)"
  then show "getPostsByUserID e userID find_fault all_fault postCollection
            = (JSON 404 (H_error ''user does not exist''), postCollection)"
    by (rule getPostsByUserID_absent)
next
  assume touched: "snd (getPostsByUserID e userID find_fault all_fault postCollection) \<noteq> postCollection
         \<or> status (fst (getPostsByUserID e userID find_fault all_fault postCollection)) = 200"
  obtain exists err where c: "checkUserExists e userID = (exists, err)"
    by (cases "checkUserExists e userID")
  with touched have "exists \<and> err = None"
    by (cases err; cases exists) (simp_all add: getPostsByUserID_def JSON_def)
  with c show "checkUserExists e userID = (True, None)" by simp
next
  assume a: "distinct (map User.ID (docs users)) \<and> deleteUser delete_fault userID users = (r, users')
         \<and> status r = 200 \<and> answered_by e userID t count_fault users'"
  then obtain objID where parsed: "ObjectIDFromHex userID = Inr objID"
    and rest: "docs users' = remove_first (\<lambda>u. User.ID u = objID) (docs users)"
    using deleteUser_200 by blast
  from a rest have "\<not> list_ex (\<lambda>u. User.ID u = objID) (docs users')"
    by (simp add: remove_first_unique)
  with parsed have "fst (userCheckUserExists count_fault userID users')
           = (case count_fault of None \<Rightarrow> JSON 200 (H_exists userID False)
              | Some err \<Rightarrow> JSON 500 (H_error err))"
    by (rule oracle_after_deletion)
  with a have "checkUserExists e userID = (False, None)"
    by (cases count_fault)
      (simp_all add: answered_by_def checkUserExists_def deliver_def JSON_def)
  then show "getPostsByUserID e userID find_fault all_fault postCollection
            = (JSON 404 (H_error ''user does not exist''), postCollection)"
    by (rule getPostsByUserID_absent)
qed

theorem getPostsByUserID_after_verification_witness:
  "getPostsByUserID (relaying hex1 3 None users1) hex1 None None posts2
     = (JSON 200 (JObject [(''posts'', JArray [Post_json post2]), (''user_id'', JString hex1)]),
        \<lparr>docs = [post2], ops = [OpFind]\<rparr>)
   \<and> checkUserExists (relaying hex1 3 None users1) hex1 = (True, None)
   \<and> distinct (map User.ID (docs users1))
   \<and> deleteUser None hex1 users1
       = (JSON 200 (H_message ''deleted successfully''), \<lparr>docs = [], ops = [OpDeleteOne]\<rparr>)
   \<and> answered_by (relaying hex1 3 None \<lparr>docs = [], ops = [OpDeleteOne]\<rparr>) hex1 3 None
        \<lparr>docs = [], ops = [OpDeleteOne]\<rparr>
   \<and> checkUserExists (relaying hex1 3 None \<lparr>docs = [], ops = [OpDeleteOne]\<rparr>) hex1
       = (False, None)
   \<and> getPostsByUserID (relaying hex1 3 None \<lparr>docs = [], ops = [OpDeleteOne]\<rparr>) hex1 None None
        posts2
       = (JSON 404 (H_error ''user does not exist''), posts2)"
proof -
  let ?users' = "\<lparr>docs = [], ops = [OpDeleteOne]\<rparr> :: User collection"
  let ?after = "relaying hex1 3 None ?users'"
  have unique: "distinct (map User.ID (docs users1))"
    by (simp add: users1_def)
  have ok: "status (JSON 200 (H_message ''deleted successfully'')) = 200"
    by (simp add: JSON_def)
  have reached: "answered_by ?after hex1 3 None ?users'"
    by (rule answered_by_relaying)
  have "getPostsByUserID ?after hex1 None None posts2
       = (JSON 404 (H_error ''user does not exist''), posts2)"
    using getPostsByUserID_after_verification
            [where e = ?after and userID = hex1 and users = users1 and delete_fault = None
               and r = "JSON 200 (H_message ''deleted successfully'')" and users' = ?users'
               and t = 3 and count_fault = None and find_fault = None and all_fault = None
               and postCollection = posts2]
          unique deleteUser_users1_hex1 ok reached
    by blast
  with checkUserExists_users1_hex1 getPostsByUserID_users1_hex1 deleteUser_users1_hex1
    checkUserExists_deleted_hex1 unique reached show ?thesis
    by blast
qed

text \<open>
  Claim C7. An identifier that is not 24 hexadecimal characters fails \<open>ObjectIDFromHex\<close>,
  and then the existence endpoint, \<open>deleteUser\<close> and \<open>deletePost\<close> each answer 400 with the
  parse error as the message and hand their collection back as it was, no count and no
  delete being logged, whatever the store would have done.
\<close>

theorem malformed_identifier_rejected:
  assumes "\<not> (length idParam = 24 \<and> list_all isHexDigit idParam)"
  shows "\<exists>err. ObjectIDFromHex idParam = Inl err
           \<and> userCheckUserExists count_fault idParam userCollection
               = (JSON 400 (H_error err), userCollection)
           \<and> deleteUser delete_fault idParam userCollection
               = (JSON 400 (H_error err), userCollection)
           \<and> deletePost fault idParam postCollection
               = (JSON 400 (H_error err), postCollection)"
proof -
  from assms ObjectIDFromHex_Inr_iff [of idParam]
  obtain err where "ObjectIDFromHex idParam = Inl err"
    by (cases "ObjectIDFromHex idParam") auto
  then show ?thesis
    by (simp add: userCheckUserExists_def deleteUser_def deletePost_def)
qed

theorem malformed_identifier_rejected_witness:
  "\<not> (length bad_id = 24 \<and> list_all isHexDigit bad_id)
   \<and> ObjectIDFromHex bad_id = Inl (''encoding/hex: invalid byte: U+0067 '' @ [CHR 0x27, CHR ''g'', CHR 0x27])
   \<and> userCheckUserExists None bad_id users1
       = (JSON 400 (H_error (InvalidByteError CHR ''g'')), users1)
   \<and> deleteUser None bad_id users1 = (JSON 400 (H_error (InvalidByteError CHR ''g'')), users1)
   \<and> deletePost None bad_id \<lparr>docs = [post2], ops = []\<rparr>
       = (JSON 400 (H_error (InvalidByteError CHR ''g'')), \<lparr>docs = [post2], ops = []\<rparr>)"
proof -
  have "\<not> isHexDigit CHR ''g''"
    by (simp add: isHexDigit_def)
  then have shape: "\<not> (length bad_id = 24 \<and> list_all isHexDigit bad_id)"
    by (simp add: bad_id_def)
  have msg: "InvalidByteError CHR ''g'' = ''encoding/hex: invalid byte: U+0067 '' @ [CHR 0x27, CHR ''g'', CHR 0x27]"
    by (simp add: InvalidByteError_def fmt_sharp_U_def)
  from shape msg show ?thesis
    using malformed_identifier_rejected
            [of bad_id None users1 None None "\<lparr>docs = [post2], ops = []\<rparr>"]
    by auto
qed

text \<open>
  Claim C8 says that the existence check ends within five seconds, the HTTP call carrying
  a five-second deadline whose overrun counts as a transport failure. \<open>checkUserExists\<close>
  calls \<open>http.Get\<close>, which sets no deadline, and the context the handlers make is handed to
  the store operations only. So the time an exchange takes has no influence on the outcome:
  a reply that comes after 60 seconds, twelve times the deadline, is read like any other,
  \<open>exists: true\<close> returned without error and \<open>exists: false\<close> answered 404, not 502.
\<close>

theorem checkUserExists_waits:
  "checkUserExists (answering code stream t) userID
     = checkUserExists (answering code stream 0) userID
   \<and> deadline_ms < 60000
   \<and> checkUserExists (answering 200 (Document (H_exists hex1 True)) 60000) hex1 = (True, None)
   \<and> getPostsByUserID (answering 200 (Document (H_exists hex1 False)) 60000) hex1 None None
        posts2
       = (JSON 404 (H_error ''user does not exist''), posts2)"
  by (simp add: getPostsByUserID_absent) (simp add: checkUserExists_def answering_def deadline_ms_def)

text \<open>
  Claim C9. \<open>deletePost\<close> never asks the Verification Client (it has no access to the
  network). For an identifier that parses: while no post has it, every one of a series of
  delete requests is answered 404 when the store answers and 500 when the store's delete
  fails at that request, and the documents stay as they are; a single request is answered
  500 exactly when the store's delete fails; and after a request answered 200, on a
  collection with one document for each identifier, the further requests for the same
  identifier are answered in that same way, 404 unless the store fails.
\<close>

theorem deletePost_idempotent:
  assumes "ObjectIDFromHex postID = Inr objID"
  shows "(\<not> list_ex (\<lambda>p. Post.ID p = objID) (docs postCollection)
            \<longrightarrow> map status (fst (deletePost_each faults postID postCollection))
                  = map (\<lambda>fault. if fault = None then 404 else 500) faults
                \<and> docs (snd (deletePost_each faults postID postCollection)) = docs postCollection)
         \<and> (status (fst (deletePost fault postID postCollection)) = 500 \<longleftrightarrow> fault \<noteq> None)
         \<and> (distinct (map Post.ID (docs postCollection))
              \<and> status (fst (deletePost fault postID postCollection)) = 200
            \<longrightarrow> map status (fst (deletePost_each faults postID
                                    (snd (deletePost fault postID postCollection))))
                  = map (\<lambda>fault. if fault = None then 404 else 500) faults)"
proof (intro conjI impI)
  assume "\<not> list_ex (\<lambda>p. Post.ID p = objID) (docs postCollection)"
  with deletePost_each_no_match [OF assms, of postCollection faults]
  show "map status (fst (deletePost_each faults postID postCollection))
          = map (\<lambda>fault. if fault = None then 404 else 500) faults"
    and "docs (snd (deletePost_each faults postID postCollection)) = docs postCollection"
    by simp_all
next
  show "status (fst (deletePost fault postID postCollection)) = 500 \<longleftrightarrow> fault \<noteq> None"
    using assms by (rule deletePost_500_iff)
next
  assume a: "distinct (map Post.ID (docs postCollection))
              \<and> status (fst (deletePost fault postID postCollection)) = 200"
  with deletePost_200 [of fault postID postCollection] assms
  have "docs (snd (deletePost fault postID postCollection))
          = remove_first (\<lambda>p. Post.ID p = objID) (docs postCollection)"
    by simp
  with a have "\<not> list_ex (\<lambda>p. Post.ID p = objID) (docs (snd (deletePost fault postID postCollection)))"
    by (simp add: remove_first_unique)
  with deletePost_each_no_match [OF assms, of "snd (deletePost fault postID postCollection)" faults]
  show "map status (fst (deletePost_each faults postID
                                    (snd (deletePost fault postID postCollection))))
                  = map (\<lambda>fault. if fault = None then 404 else 500) faults"
    by simp
qed

theorem deletePost_idempotent_witness:
  "ObjectIDFromHex hex1 = Inr oid1
   \<and> \<not> list_ex (\<lambda>p. Post.ID p = oid1) (docs posts2)
   \<and> map status (fst (deletePost_each [None, Some ''connection reset'', None] hex1 posts2))
       = [404, 500, 404]
   \<and> docs (snd (deletePost_each [None, Some ''connection reset'', None] hex1 posts2)) = [post2]
   \<and> ObjectIDFromHex hex2 = Inr oid2
   \<and> distinct (map Post.ID (docs posts2))
   \<and> status (fst (deletePost None hex2 posts2)) = 200
   \<and> map status (fst (deletePost_each [None, None] hex2 (snd (deletePost None hex2 posts2))))
       = [404, 404]
   \<and> status (fst (deletePost (Some ''connection reset'') hex2 posts2)) = 500"
proof -
  have absent: "\<not> list_ex (\<lambda>p. Post.ID p = oid1) (docs posts2)"
    and unique: "distinct (map Post.ID (docs posts2))"
    and stored: "docs posts2 = [post2]"
    by (simp_all add: posts2_def post2_def)
  have deleted: "status (fst (deletePost None hex2 posts2)) = 200"
    by (simp add: deletePost_posts2_hex2 JSON_def)
  from absent unique stored deleted show ?thesis
    using deletePost_idempotent
            [where postID = hex1 and objID = oid1 and postCollection = posts2
               and faults = "[None, Some ''connection reset'', None]"]
          deletePost_idempotent
            [where postID = hex2 and objID = oid2 and postCollection = posts2
               and fault = None and faults = "[None, None]"]
          deletePost_idempotent
            [where postID = hex2 and objID = oid2 and postCollection = posts2
               and fault = "Some ''connection reset''"]
    by simp
qed

text \<open>
  Claim C10. When \<open>createUser\<close> answers 201, the body carries the new identifier in
  hexadecimal, and the existence endpoint, asked for that string on the collection as the
  creation left it, answers 200 with \<open>exists: true\<close> whenever the store answers the count;
  the one other answer is 500, when the count fails. The identifier that
  \<open>primitive.NewObjectID()\<close> returns is taken not to be the zero identifier (it starts
  with the current time), which the driver would replace by one of its own.
\<close>

theorem create_then_exists:
  assumes "createUser bound newID generated fault userCollection = (r, users')"
    and "status r = 201"
    and "newID \<noteq> NilObjectID"
  shows "(\<exists>decoded. bound = Inr decoded
            \<and> body r = JObject [(''id'', JString (Hex newID)), (''name'', JString (Name decoded))])
         \<and> userCheckUserExists None (Hex newID) users'
             = (JSON 200 (H_exists (Hex newID) True), logged OpCountDocuments users')
         \<and> (\<forall>err. fst (userCheckUserExists (Some err) (Hex newID) users')
                     = JSON 500 (H_error err))"
proof -
  from createUser_201 [OF assms] obtain decoded where bound: "bound = Inr decoded"
    and r: "r = JSON 201 (User_json (decoded\<lparr>User.ID := newID\<rparr>))"
    and stored: "docs users' = docs userCollection @ [decoded\<lparr>User.ID := newID\<rparr>]"
    by blast
  from r have "body r = JObject [(''id'', JString (Hex newID)), (''name'', JString (Name decoded))]"
    by (simp add: JSON_def User_json_def)
  moreover from stored have "0 < length (filter (\<lambda>u. User.ID u = newID) (docs users'))"
    by simp
  then have "userCheckUserExists None (Hex newID) users'
             = (JSON 200 (H_exists (Hex newID) True), logged OpCountDocuments users')"
    by (simp add: userCheckUserExists_def ObjectIDFromHex_Hex CountDocuments_def Let_def)
  moreover have "\<forall>err. fst (userCheckUserExists (Some err) (Hex newID) users')
                     = JSON 500 (H_error err)"
    by (simp add: userCheckUserExists_def ObjectIDFromHex_Hex CountDocuments_def Let_def)
  ultimately show ?thesis using bound by simp
qed

theorem create_then_exists_witness:
  "createUser (Inr \<lparr>User.ID = NilObjectID, Name = ''Alice''\<rparr>) oid1 oid2 None empty_collection
     = (JSON 201 (JObject [(''id'', JString hex1), (''name'', JString ''Alice'')]),
        \<lparr>docs = [user1], ops = [OpInsertOne]\<rparr>)
   \<and> oid1 \<noteq> NilObjectID
   \<and> userCheckUserExists None hex1 \<lparr>docs = [user1], ops = [OpInsertOne]\<rparr>
       = (JSON 200 (JObject [(''exists'', JBool True), (''id'', JString hex1)]),
          \<lparr>docs = [user1], ops = [OpInsertOne, OpCountDocuments]\<rparr>)"
proof -
  have st: "status (JSON 201 (User_json user1)) = 201"
    by (simp add: JSON_def)
  have json: "User_json user1 = JObject [(''id'', JString hex1), (''name'', JString ''Alice'')]"
    by (simp add: User_json_def user1_def)
  from st json show ?thesis
    using create_then_exists [OF createUser_alice st oid_simps(1)] createUser_alice
    by (simp add: H_exists_def logged_def)
qed

end
